theory Spec2Isabelle
  imports Main
begin

section \<open>Data model\<close>

text \<open>
  A row of the \<open>complaints\<close> table, with the columns the components read and write.
  Timestamps are instants on a linear time line (natural numbers); the source keeps them
  as ISO-8601 strings of such instants. The column \<open>company_notes\<close> is nullable.
\<close>

record complaint =
  id_c :: string
  user_id :: string
  bicycle_model :: string
  issue_type :: string
  description :: string
  priority :: string
  status :: string
  company_notes :: "string option"
  created_at :: nat
  updated_at :: nat

text \<open>A row of the \<open>users\<close> table; \<open>role\<close> is a nullable text column.\<close>

record user_row =
  id_u :: string
  email :: string
  name :: string
  phone :: string
  role :: "string option"

text \<open>
  The staff query selects \<open>*, users (name, email, phone)\<close>: every complaint comes with the
  embedded contact columns of its owner, or null when there is no such user row.
\<close>

record contact =
  contact_name :: string
  contact_email :: string
  contact_phone :: string

record complaint_with_users = complaint +
  users :: "contact option"

text \<open>The object \<open>{ data, error }\<close> every call of the store client resolves to.\<close>

record 'a response =
  data :: "'a option"
  error :: "string option"

text \<open>
  The store is an external service: whether a request goes through is not decided by
  this program. It is an input of the model.
\<close>

datatype outcome = Ok | Failed string

record store =
  complaints_tbl :: "complaint list"
  users_tbl :: "user_row list"

section \<open>The store client calls made by the components\<close>

text \<open>\<open>.order("created_at", { ascending: false })\<close>\<close>

definition order_created_at_desc :: "('a complaint_scheme) list \<Rightarrow> ('a complaint_scheme) list" where
  "order_created_at_desc rows = rev (sort_key created_at rows)"

definition embed_users :: "user_row list \<Rightarrow> complaint \<Rightarrow> complaint_with_users" where
  "embed_users us c =
     \<lparr> id_c = id_c c, user_id = user_id c, bicycle_model = bicycle_model c,
       issue_type = issue_type c, description = description c, priority = priority c,
       status = status c, company_notes = company_notes c,
       created_at = created_at c, updated_at = updated_at c,
       users = (case find (\<lambda>u. id_u u = user_id c) us of
                  None \<Rightarrow> None
                | Some u \<Rightarrow> Some \<lparr> contact_name = name u, contact_email = email u,
                                   contact_phone = phone u \<rparr>) \<rparr>"

text \<open>
  \<open>from("complaints").select("*, users (name, email, phone)").order("created_at", ...)\<close>,
  the staff query.
\<close>

definition select_all_complaints :: "outcome \<Rightarrow> store \<Rightarrow> complaint_with_users list response" where
  "select_all_complaints oc db =
     (case oc of
        Failed e \<Rightarrow> \<lparr> data = None, error = Some e \<rparr>
      | Ok \<Rightarrow> \<lparr> data = Some (order_created_at_desc
                                (map (embed_users (users_tbl db)) (complaints_tbl db))),
                error = None \<rparr>)"

text \<open>
  \<open>from("complaints").update(patch).eq("id", complaintId)\<close>: the patch is applied to
  every row whose id matches; a failed request changes nothing.
\<close>

definition update_complaints ::
  "outcome \<Rightarrow> (complaint \<Rightarrow> complaint) \<Rightarrow> string \<Rightarrow> store \<Rightarrow> unit response \<times> store" where
  "update_complaints oc patch complaintId db =
     (case oc of
        Failed e \<Rightarrow> (\<lparr> data = None, error = Some e \<rparr>, db)
      | Ok \<Rightarrow> (\<lparr> data = None, error = None \<rparr>,
               db\<lparr> complaints_tbl :=
                     map (\<lambda>c. if id_c c = complaintId then patch c else c)
                         (complaints_tbl db) \<rparr>))"

section \<open>CompanyDashboard\<close>

record stats =
  total :: nat
  pending :: nat
  inProgress :: nat
  completed :: nat

text \<open>
  The component's state hooks, and the two effects it has on the outside: what it writes
  with \<open>console.error\<close> and what it shows with \<open>alert\<close>.
\<close>

record company_state =
  complaints :: "complaint_with_users list"
  filteredComplaints :: "complaint_with_users list"
  loading :: bool
  filter_s :: string
  selectedComplaint :: "complaint_with_users option"
  companyNotes :: string
  stats_s :: stats
  console :: "(string \<times> string) list"
  alerts :: "string list"

definition CompanyDashboard_init :: company_state where
  "CompanyDashboard_init =
     \<lparr> complaints = [], filteredComplaints = [], loading = True, filter_s = ''pending'',
       selectedComplaint = None, companyNotes = '''',
       stats_s = \<lparr> total = 0, pending = 0, inProgress = 0, completed = 0 \<rparr>,
       console = [], alerts = [] \<rparr>"

definition filterComplaints :: "company_state \<Rightarrow> company_state" where
  "filterComplaints st =
     (let filtered =
        (if filter_s st = ''pending'' then
           filter (\<lambda>c. status c = ''pending'') (complaints st)
         else if filter_s st = ''in-progress'' then
           filter (\<lambda>c. status c = ''in-progress'') (complaints st)
         else if filter_s st = ''completed'' then
           filter (\<lambda>c. status c = ''completed'') (complaints st)
         else if filter_s st = ''all'' then complaints st
         else complaints st)
      in st\<lparr> filteredComplaints := filtered \<rparr>)"

definition calculateStats :: "company_state \<Rightarrow> company_state" where
  "calculateStats st =
     (let newStats =
        \<lparr> total = length (complaints st),
          pending = length (filter (\<lambda>c. status c = ''pending'') (complaints st)),
          inProgress = length (filter (\<lambda>c. status c = ''in-progress'') (complaints st)),
          completed = length (filter (\<lambda>c. status c = ''completed'') (complaints st)) \<rparr>
      in st\<lparr> stats_s := newStats \<rparr>)"

text \<open>
  The effect with dependencies \<open>[complaints, filter]\<close>: it runs after the first render and
  after every render in which one of the two has changed.
\<close>

definition complaints_filter_effect :: "company_state \<Rightarrow> company_state" where
  "complaints_filter_effect st = calculateStats (filterComplaints st)"

definition setFilter :: "string \<Rightarrow> company_state \<Rightarrow> company_state" where
  "setFilter f st = complaints_filter_effect (st\<lparr> filter_s := f \<rparr>)"

text \<open>
  \<open>fetchComplaints\<close>, from the point where the awaited query has resolved to \<open>resp\<close>.
  A non-null \<open>error\<close> is thrown and caught: it is written to the console and the list
  is not touched. Otherwise the list becomes \<open>data || []\<close>, which re-runs the effect.
\<close>

definition fetchComplaints ::
  "complaint_with_users list response \<Rightarrow> company_state \<Rightarrow> company_state" where
  "fetchComplaints resp st =
     (case error resp of
        Some e \<Rightarrow> st\<lparr> console := console st @ [(''Error fetching complaints:'', e)],
                     loading := False \<rparr>
      | None \<Rightarrow> complaints_filter_effect
                 (st\<lparr> complaints := (case data resp of Some d \<Rightarrow> d | None \<Rightarrow> []),
                     loading := False \<rparr>))"

text \<open>
  Mounting the component: the effect on \<open>[complaints, filter]\<close> runs on the initial state,
  and the mount effect starts one fetch, which resolves to \<open>resp\<close>.
\<close>

definition CompanyDashboard_mount :: "complaint_with_users list response \<Rightarrow> company_state" where
  "CompanyDashboard_mount resp =
     fetchComplaints resp (complaints_filter_effect CompanyDashboard_init)"

text \<open>
  \<open>updateComplaintStatus\<close>: the update is sent with the client's clock reading \<open>now\<close>;
  on success a fetch follows, which resolves under the outcome \<open>oc_fetch\<close>.
\<close>

definition updateComplaintStatus ::
  "outcome \<Rightarrow> outcome \<Rightarrow> nat \<Rightarrow> string \<Rightarrow> string \<Rightarrow> store \<times> company_state
     \<Rightarrow> store \<times> company_state" where
  "updateComplaintStatus oc_update oc_fetch now complaintId newStatus s =
     (case s of (db, st) \<Rightarrow>
        (case update_complaints oc_update
                (\<lambda>c. c\<lparr> status := newStatus, updated_at := now \<rparr>) complaintId db of
           (resp, db') \<Rightarrow>
             (case error resp of
                Some e \<Rightarrow>
                  (db', st\<lparr> console := console st @ [(''Error updating status:'', e)],
                            alerts := alerts st @ [''Error updating status. Please try again.''] \<rparr>)
              | None \<Rightarrow> (db', fetchComplaints (select_all_complaints oc_fetch db') st))))"

definition saveCompanyNotes ::
  "outcome \<Rightarrow> outcome \<Rightarrow> nat \<Rightarrow> string \<Rightarrow> store \<times> company_state
     \<Rightarrow> store \<times> company_state" where
  "saveCompanyNotes oc_update oc_fetch now complaintId s =
     (case s of (db, st) \<Rightarrow>
        (case update_complaints oc_update
                (\<lambda>c. c\<lparr> company_notes := Some (companyNotes st), updated_at := now \<rparr>)
                complaintId db of
           (resp, db') \<Rightarrow>
             (case error resp of
                Some e \<Rightarrow>
                  (db', st\<lparr> console := console st @ [(''Error saving notes:'', e)],
                            alerts := alerts st @ [''Error saving notes. Please try again.''] \<rparr>)
              | None \<Rightarrow>
                  (db', fetchComplaints (select_all_complaints oc_fetch db')
                          (st\<lparr> alerts := alerts st @ [''Notes saved successfully!''],
                               selectedComplaint := None,
                               companyNotes := '''' \<rparr>)))))"

definition openComplaintModal :: "complaint_with_users \<Rightarrow> company_state \<Rightarrow> company_state" where
  "openComplaintModal c st =
     st\<lparr> selectedComplaint := Some c,
         companyNotes := (case company_notes c of
                            None \<Rightarrow> ''''
                          | Some n \<Rightarrow> n) \<rparr>"

section \<open>CustomerDashboard\<close>

record auth_user =
  auth_id :: string
  auth_email :: string

record session =
  user :: auth_user

record form_data =
  form_bicycle_model :: string
  form_issue_type :: string
  form_description :: string
  form_priority :: string

record customer_state =
  complaints_cu :: "complaint list"
  loading_cu :: bool
  showForm :: bool
  formData :: form_data
  console_cu :: "(string \<times> string) list"
  alerts_cu :: "string list"

definition empty_form :: form_data where
  "empty_form =
     \<lparr> form_bicycle_model = '''', form_issue_type = '''', form_description = '''',
       form_priority = ''medium'' \<rparr>"

definition CustomerDashboard_init :: customer_state where
  "CustomerDashboard_init =
     \<lparr> complaints_cu = [], loading_cu = True, showForm = False, formData = empty_form,
       console_cu = [], alerts_cu = [] \<rparr>"

text \<open>
  \<open>from("complaints").select("*").eq("user_id", id).order("created_at", ...)\<close>, the
  customer query.
\<close>

definition select_complaints_of_user :: "outcome \<Rightarrow> string \<Rightarrow> store \<Rightarrow> complaint list response" where
  "select_complaints_of_user oc uid db =
     (case oc of
        Failed e \<Rightarrow> \<lparr> data = None, error = Some e \<rparr>
      | Ok \<Rightarrow> \<lparr> data = Some (order_created_at_desc
                                (filter (\<lambda>c. user_id c = uid) (complaints_tbl db))),
                error = None \<rparr>)"

text \<open>The six columns \<open>handleSubmit\<close> sends to \<open>insert\<close>.\<close>

record new_complaint =
  new_user_id :: string
  new_bicycle_model :: string
  new_issue_type :: string
  new_description :: string
  new_priority :: string
  new_status :: string

text \<open>
  Modelled from the spec: the column defaults of the \<open>complaints\<close> table, whose schema is
  not part of the source. The store generates the identifier (\<open>new_id\<close>) and sets both
  timestamps to its time of insertion (\<open>now\<close>); the staff notes start out null. A failed
  request inserts nothing.
\<close>

definition insert_complaint ::
  "outcome \<Rightarrow> string \<Rightarrow> nat \<Rightarrow> new_complaint \<Rightarrow> store \<Rightarrow> unit response \<times> store" where
  "insert_complaint oc new_id now r db =
     (case oc of
        Failed e \<Rightarrow> (\<lparr> data = None, error = Some e \<rparr>, db)
      | Ok \<Rightarrow> (\<lparr> data = None, error = None \<rparr>,
               db\<lparr> complaints_tbl := complaints_tbl db @
                     [\<lparr> id_c = new_id, user_id = new_user_id r,
                        bicycle_model = new_bicycle_model r, issue_type = new_issue_type r,
                        description = new_description r, priority = new_priority r,
                        status = new_status r, company_notes = None,
                        created_at = now, updated_at = now \<rparr>] \<rparr>))"

text \<open>\<open>fetchComplaints\<close> of the customer view, from the point where the query has resolved.\<close>

definition fetchComplaints_cu :: "complaint list response \<Rightarrow> customer_state \<Rightarrow> customer_state" where
  "fetchComplaints_cu resp st =
     (case error resp of
        Some e \<Rightarrow> st\<lparr> console_cu := console_cu st @ [(''Error fetching complaints:'', e)],
                     loading_cu := False \<rparr>
      | None \<Rightarrow> st\<lparr> complaints_cu := (case data resp of Some d \<Rightarrow> d | None \<Rightarrow> []),
                    loading_cu := False \<rparr>)"

text \<open>
  \<open>handleSubmit\<close>: the form's fields go to \<open>insert\<close> as they are, with the session's user
  as owner and the status \<open>pending\<close>. On success the form is closed and reset and a fetch
  follows, which resolves under the outcome \<open>oc_fetch\<close>; on failure the draft stays.
\<close>

definition handleSubmit ::
  "outcome \<Rightarrow> outcome \<Rightarrow> string \<Rightarrow> nat \<Rightarrow> session \<Rightarrow> store \<times> customer_state
     \<Rightarrow> store \<times> customer_state" where
  "handleSubmit oc_insert oc_fetch new_id now sess s =
     (case s of (db, st0) \<Rightarrow>
        (let st = st0\<lparr> loading_cu := True \<rparr> in
         case insert_complaint oc_insert new_id now
                \<lparr> new_user_id = auth_id (user sess),
                  new_bicycle_model = form_bicycle_model (formData st),
                  new_issue_type = form_issue_type (formData st),
                  new_description = form_description (formData st),
                  new_priority = form_priority (formData st),
                  new_status = ''pending'' \<rparr> db of
           (resp, db') \<Rightarrow>
             (case error resp of
                Some e \<Rightarrow>
                  (db', st\<lparr> console_cu := console_cu st @ [(''Error submitting complaint:'', e)],
                            alerts_cu := alerts_cu st @ [''Error submitting request. Please try again.''],
                            loading_cu := False \<rparr>)
              | None \<Rightarrow>
                  (db', fetchComplaints_cu
                          (select_complaints_of_user oc_fetch (auth_id (user sess)) db')
                          (st\<lparr> showForm := False, formData := empty_form,
                               alerts_cu := alerts_cu st @ [''Service request submitted successfully!''],
                               loading_cu := False \<rparr>)))))"

text \<open>\<open>handleChange\<close>: the event's target is one of the four named controls of the form.\<close>

definition handleChange :: "string \<Rightarrow> string \<Rightarrow> customer_state \<Rightarrow> customer_state" where
  "handleChange target_name target_value st =
     st\<lparr> formData :=
           (if target_name = ''bicycle_model'' then (formData st)\<lparr> form_bicycle_model := target_value \<rparr>
            else if target_name = ''issue_type'' then (formData st)\<lparr> form_issue_type := target_value \<rparr>
            else if target_name = ''description'' then (formData st)\<lparr> form_description := target_value \<rparr>
            else if target_name = ''priority'' then (formData st)\<lparr> form_priority := target_value \<rparr>
            else formData st) \<rparr>"

definition toggleForm :: "customer_state \<Rightarrow> customer_state" where
  "toggleForm st = st\<lparr> showForm := \<not> showForm st \<rparr>"

text \<open>
  The form element of the component. It is rendered only while \<open>showForm\<close> holds, its
  submit button is \<open>disabled={loading}\<close>, and the controls \<open>bicycle_model\<close>, \<open>issue_type\<close>,
  \<open>priority\<close> and \<open>description\<close> carry the attribute \<open>required\<close>: the submit event, and with
  it \<open>handleSubmit\<close>, is fired only when none of them has an empty value.
\<close>

definition form_submittable :: "customer_state \<Rightarrow> bool" where
  "form_submittable st \<longleftrightarrow>
     showForm st \<and> \<not> loading_cu st \<and>
     form_bicycle_model (formData st) \<noteq> '''' \<and>
     form_issue_type (formData st) \<noteq> '''' \<and>
     form_priority (formData st) \<noteq> '''' \<and>
     form_description (formData st) \<noteq> ''''"

definition form_onSubmit ::
  "outcome \<Rightarrow> outcome \<Rightarrow> string \<Rightarrow> nat \<Rightarrow> session \<Rightarrow> store \<times> customer_state
     \<Rightarrow> store \<times> customer_state" where
  "form_onSubmit oc_insert oc_fetch new_id now sess s =
     (if form_submittable (snd s)
      then handleSubmit oc_insert oc_fetch new_id now sess s
      else s)"


section \<open>App and Login\<close>

text \<open>The object selected by \<open>from("users").select("role")\<close>.\<close>

record role_row =
  role_r :: "string option"

text \<open>
  \<open>from("users").select("role").eq("id", userId).single()\<close>: an error unless exactly one
  row matches.
\<close>

definition select_role_single :: "outcome \<Rightarrow> string \<Rightarrow> store \<Rightarrow> role_row response" where
  "select_role_single oc userId db =
     (case oc of
        Failed e \<Rightarrow> \<lparr> data = None, error = Some e \<rparr>
      | Ok \<Rightarrow>
          (case filter (\<lambda>u. id_u u = userId) (users_tbl db) of
             [u] \<Rightarrow> \<lparr> data = Some \<lparr> role_r = role u \<rparr>, error = None \<rparr>
           | _ \<Rightarrow> \<lparr> data = None,
                    error = Some ''JSON object requested, multiple (or no) rows returned'' \<rparr>))"

definition insert_user :: "outcome \<Rightarrow> user_row \<Rightarrow> store \<Rightarrow> unit response \<times> store" where
  "insert_user oc r db =
     (case oc of
        Failed e \<Rightarrow> (\<lparr> data = None, error = Some e \<rparr>, db)
      | Ok \<Rightarrow> (\<lparr> data = None, error = None \<rparr>, db\<lparr> users_tbl := users_tbl db @ [r] \<rparr>))"

record app_state =
  session_a :: "session option"
  userRole :: "string option"
  loading_a :: bool
  console_a :: "(string \<times> string) list"

definition App_init :: app_state where
  "App_init = \<lparr> session_a = None, userRole = None, loading_a = True, console_a = [] \<rparr>"

text \<open>\<open>data?.role || "customer"\<close>: null data, a null role and the empty string are falsy.\<close>

definition role_or_customer :: "role_row option \<Rightarrow> string" where
  "role_or_customer d =
     (case d of
        None \<Rightarrow> ''customer''
      | Some r \<Rightarrow> (case role_r r of
                     None \<Rightarrow> ''customer''
                   | Some x \<Rightarrow> if x = '''' then ''customer'' else x))"

definition fetchUserRole :: "role_row response \<Rightarrow> app_state \<Rightarrow> app_state" where
  "fetchUserRole resp st =
     (case error resp of
        Some e \<Rightarrow> st\<lparr> userRole := Some ''customer'',
                     console_a := console_a st @ [(''Error fetching user role:'', e)],
                     loading_a := False \<rparr>
      | None \<Rightarrow> st\<lparr> userRole := Some (role_or_customer (data resp)), loading_a := False \<rparr>)"

text \<open>
  The two callbacks that receive a session: the one passed to \<open>getSession().then\<close> on
  mount and the one passed to \<open>onAuthStateChange\<close>. With a session, both store it and
  start the role query for \<open>session.user.id\<close>; they do not wait for it. The query resolves
  later, and \<open>fetchUserRole\<close> above is what is then applied to the state of that moment.
\<close>

definition getSession_then :: "session option \<Rightarrow> app_state \<Rightarrow> app_state" where
  "getSession_then sess st =
     (case sess of
        Some s \<Rightarrow> st\<lparr> session_a := sess \<rparr>
      | None \<Rightarrow> st\<lparr> session_a := None, loading_a := False \<rparr>)"

definition onAuthStateChange :: "session option \<Rightarrow> app_state \<Rightarrow> app_state" where
  "onAuthStateChange sess st =
     (case sess of
        Some s \<Rightarrow> st\<lparr> session_a := sess \<rparr>
      | None \<Rightarrow> st\<lparr> session_a := None, userRole := None, loading_a := False \<rparr>)"

definition handleLogout :: "app_state \<Rightarrow> app_state" where
  "handleLogout st = st\<lparr> session_a := None, userRole := None \<rparr>"

datatype screen = Loading_screen | Login_screen | CompanyDashboard_screen | CustomerDashboard_screen

definition App_render :: "app_state \<Rightarrow> screen" where
  "App_render st =
     (if loading_a st then Loading_screen
      else if session_a st = None then Login_screen
      else if userRole st = Some ''company'' then CompanyDashboard_screen
      else CustomerDashboard_screen)"



record login_state =
  loading_l :: bool
  isSignUp :: bool
  email_l :: string
  password_l :: string
  name_l :: string
  phone_l :: string
  error_l :: "string option"
  alerts_l :: "string list"

text \<open>What \<open>auth.signUp\<close> resolves to: \<open>{ data: { user }, error }\<close>.\<close>

record auth_response =
  auth_data_user :: "auth_user option"
  auth_error :: "string option"

definition signUp_done :: "login_state \<Rightarrow> login_state" where
  "signUp_done st =
     st\<lparr> alerts_l := alerts_l st @ [''Account created successfully! Please login.''],
         isSignUp := False, name_l := '''', phone_l := '''', loading_l := False \<rparr>"

definition handleSignUp ::
  "auth_response \<Rightarrow> outcome \<Rightarrow> store \<times> login_state \<Rightarrow> store \<times> login_state" where
  "handleSignUp authResp oc_insert s =
     (case s of (db, st0) \<Rightarrow>
        (let st = st0\<lparr> loading_l := True, error_l := None \<rparr> in
         case auth_error authResp of
           Some e \<Rightarrow> (db, st\<lparr> error_l := Some e, loading_l := False \<rparr>)
         | None \<Rightarrow>
             (case auth_data_user authResp of
                None \<Rightarrow> (db, signUp_done st)
              | Some u \<Rightarrow>
                  (case insert_user oc_insert
                          \<lparr> id_u = auth_id u, email = email_l st, name = name_l st,
                            phone = phone_l st, role = Some ''customer'' \<rparr> db of
                     (resp, db') \<Rightarrow>
                       (case error resp of
                          Some e \<Rightarrow> (db', st\<lparr> error_l := Some e, loading_l := False \<rparr>)
                        | None \<Rightarrow> (db', signUp_done st))))))"

section \<open>Example data\<close>

definition example_complaint :: "string \<Rightarrow> string \<Rightarrow> string \<Rightarrow> nat \<Rightarrow> complaint" where
  "example_complaint i u s t =
     \<lparr> id_c = i, user_id = u, bicycle_model = ''EV-City 2023'', issue_type = ''brakes'',
       description = ''Rear brake squeaks'', priority = ''medium'', status = s,
       company_notes = None, created_at = t, updated_at = t \<rparr>"

definition example_store :: store where
  "example_store =
     \<lparr> complaints_tbl =
         [example_complaint ''c1'' ''u1'' ''cancelled'' 10,
          example_complaint ''c2'' ''u2'' ''in-progress'' 20,
          example_complaint ''c3'' ''u1'' ''completed'' 30,
          example_complaint ''c4'' ''u2'' ''pending'' 40,
          example_complaint ''c5'' ''u1'' ''in-progress'' 50],
       users_tbl =
         [\<lparr> id_u = ''u1'', email = ''asha@example.org'', name = ''Asha'', phone = ''555-0101'',
            role = Some ''customer'' \<rparr>,
          \<lparr> id_u = ''u2'', email = ''ravi@example.org'', name = ''Ravi'', phone = ''555-0102'',
            role = Some ''customer'' \<rparr>,
          \<lparr> id_u = ''s1'', email = ''desk@example.org'', name = ''Service desk'', phone = ''555-0100'',
            role = Some ''company'' \<rparr>] \<rparr>"

definition example_session :: session where
  "example_session = \<lparr> user = \<lparr> auth_id = ''u1'', auth_email = ''asha@example.org'' \<rparr> \<rparr>"

definition example_staff_session :: session where
  "example_staff_session = \<lparr> user = \<lparr> auth_id = ''s1'', auth_email = ''desk@example.org'' \<rparr> \<rparr>"

text \<open>The staff view after it has been mounted on the example store.\<close>

definition example_company_state :: company_state where
  "example_company_state = CompanyDashboard_mount (select_all_complaints Ok example_store)"

text \<open>The customer view of \<open>u1\<close> after its first fetch on the example store.\<close>

definition example_customer_state :: customer_state where
  "example_customer_state =
     fetchComplaints_cu (select_complaints_of_user Ok (auth_id (user example_session)) example_store)
       CustomerDashboard_init"

text \<open>The same view with the form open and the scenario's draft typed in.\<close>

definition example_draft :: form_data where
  "example_draft =
     \<lparr> form_bicycle_model = ''EV-Sport 2024'', form_issue_type = ''battery'',
       form_description = ''Won't hold charge'', form_priority = ''high'' \<rparr>"

definition example_customer_draft_state :: customer_state where
  "example_customer_draft_state =
     (toggleForm example_customer_state)\<lparr> formData := example_draft \<rparr>"

text \<open>The same view with a draft whose description has been left empty.\<close>

definition example_customer_empty_state :: customer_state where
  "example_customer_empty_state =
     (toggleForm example_customer_state)
       \<lparr> formData := example_draft\<lparr> form_description := '''' \<rparr> \<rparr>"

section \<open>Evaluating the model on the example data\<close>

lemmas example_defs =
  example_complaint_def example_store_def example_session_def example_staff_session_def
  example_company_state_def example_customer_state_def example_draft_def
  example_customer_draft_state_def example_customer_empty_state_def

lemmas store_defs =
  order_created_at_desc_def embed_users_def select_all_complaints_def update_complaints_def
  select_complaints_of_user_def insert_complaint_def select_role_single_def insert_user_def

lemmas company_defs =
  CompanyDashboard_init_def filterComplaints_def calculateStats_def
  complaints_filter_effect_def setFilter_def fetchComplaints_def CompanyDashboard_mount_def
  updateComplaintStatus_def saveCompanyNotes_def openComplaintModal_def

lemmas customer_defs =
  empty_form_def CustomerDashboard_init_def fetchComplaints_cu_def handleSubmit_def
  handleChange_def toggleForm_def form_submittable_def form_onSubmit_def

lemmas app_defs =
  App_init_def role_or_customer_def fetchUserRole_def getSession_then_def
  onAuthStateChange_def handleLogout_def
  App_render_def signUp_done_def handleSignUp_def

section \<open>The staff view: filter and aggregate counts\<close>

lemma complaints_filterComplaints [simp]: "complaints (filterComplaints st) = complaints st"
  by (simp add: filterComplaints_def Let_def)

lemma stats_calculateStats:
  "stats_s (calculateStats st) =
     \<lparr> total = length (complaints st),
       pending = length (filter (\<lambda>c. status c = ''pending'') (complaints st)),
       inProgress = length (filter (\<lambda>c. status c = ''in-progress'') (complaints st)),
       completed = length (filter (\<lambda>c. status c = ''completed'') (complaints st)) \<rparr>"
  by (simp add: calculateStats_def Let_def)

lemma stats_setFilter: "stats_s (setFilter f st) = stats_s (calculateStats st)"
  by (simp add: setFilter_def complaints_filter_effect_def stats_calculateStats)

lemma status_partition:
  "\<forall>c \<in> set xs. status c \<in> {''pending'', ''in-progress'', ''completed'', ''cancelled''} \<Longrightarrow>
   length xs = length (filter (\<lambda>c. status c = ''pending'') xs)
             + length (filter (\<lambda>c. status c = ''in-progress'') xs)
             + length (filter (\<lambda>c. status c = ''completed'') xs)
             + length (filter (\<lambda>c. status c = ''cancelled'') xs)"
  by (induction xs) auto

text \<open>
  C1. When every status of the staff view's record set is one of pending, in-progress,
  completed and cancelled, the total that \<open>calculateStats\<close> computes is the sum of its
  pending, in-progress and completed counts and the number of cancelled records of the
  set. The counts are computed from the unfiltered record set: after any choice of filter
  they are what \<open>calculateStats\<close> gives on the record set, so two filters give the same
  counts.
\<close>

theorem counts_sum_to_total:
  assumes "\<forall>c \<in> set (complaints st).
             status c \<in> {''pending'', ''in-progress'', ''completed'', ''cancelled''}"
  shows "total (stats_s (calculateStats st)) =
           pending (stats_s (calculateStats st)) + inProgress (stats_s (calculateStats st))
           + completed (stats_s (calculateStats st))
           + length (filter (\<lambda>c. status c = ''cancelled'') (complaints st))
         \<and> stats_s (setFilter f st) = stats_s (calculateStats st)
         \<and> stats_s (setFilter f st) = stats_s (setFilter g st)"
  using status_partition [OF assms] by (simp add: stats_calculateStats stats_setFilter)

theorem counts_sum_to_total_witness:
  "list_all (\<lambda>c. status c \<in> {''pending'', ''in-progress'', ''completed'', ''cancelled''})
     (complaints example_company_state)
   \<and> total (stats_s (calculateStats example_company_state)) = 5
   \<and> pending (stats_s (calculateStats example_company_state)) = 1
   \<and> inProgress (stats_s (calculateStats example_company_state)) = 2
   \<and> completed (stats_s (calculateStats example_company_state)) = 1
   \<and> length (filter (\<lambda>c. status c = ''cancelled'') (complaints example_company_state)) = 1
   \<and> stats_s (setFilter ''all'' example_company_state)
       = stats_s (setFilter ''in-progress'' example_company_state)"
proof -
  have h: "\<forall>c \<in> set (complaints example_company_state).
             status c \<in> {''pending'', ''in-progress'', ''completed'', ''cancelled''}"
    by (simp add: example_defs store_defs company_defs Let_def)
  show ?thesis
    using counts_sum_to_total [OF h, of "''all''" "''in-progress''"]
    by (simp add: example_defs store_defs company_defs Let_def)
qed

text \<open>
  C6. After the filter has been set to \<open>f\<close>, the visible list is the list of the records
  whose status is \<open>f\<close> when \<open>f\<close> is pending, in-progress or completed, and the full record
  set for \<open>all\<close> and for every other value.
\<close>

theorem filter_visible_list:
  "filteredComplaints (setFilter f st) =
     (if f \<in> {''pending'', ''in-progress'', ''completed''}
      then filter (\<lambda>c. status c = f) (complaints st)
      else complaints st)"
  by (simp add: setFilter_def complaints_filter_effect_def calculateStats_def Let_def
        filterComplaints_def)

theorem filter_visible_list_witness:
  "map id_c (filteredComplaints (setFilter ''in-progress'' example_company_state)) = [''c5'', ''c2'']
   \<and> map id_c (filteredComplaints (setFilter ''all'' example_company_state))
       = [''c5'', ''c4'', ''c3'', ''c2'', ''c1'']
   \<and> filteredComplaints (setFilter ''cancelled'' example_company_state)
       = complaints example_company_state
   \<and> total (stats_s (setFilter ''in-progress'' example_company_state)) = 5"
  using filter_visible_list [of "''in-progress''" example_company_state]
        filter_visible_list [of "''all''" example_company_state]
        filter_visible_list [of "''cancelled''" example_company_state]
  by (simp add: example_defs store_defs company_defs Let_def)

text \<open>
  C10. The staff view starts with the filter \<open>pending\<close>. Once it has been mounted and its
  first fetch has returned the record set \<open>d\<close>, with no filter change in between, the
  visible list holds exactly the pending records of \<open>d\<close>, while the counts are those of
  the whole of \<open>d\<close>.
\<close>

theorem mount_shows_pending:
  "filter_s CompanyDashboard_init = ''pending'' \<and>
   filter_s (CompanyDashboard_mount \<lparr> data = Some d, error = None \<rparr>) = ''pending'' \<and>
   complaints (CompanyDashboard_mount \<lparr> data = Some d, error = None \<rparr>) = d \<and>
   filteredComplaints (CompanyDashboard_mount \<lparr> data = Some d, error = None \<rparr>)
     = filter (\<lambda>c. status c = ''pending'') d \<and>
   stats_s (CompanyDashboard_mount \<lparr> data = Some d, error = None \<rparr>)
     = \<lparr> total = length d,
         pending = length (filter (\<lambda>c. status c = ''pending'') d),
         inProgress = length (filter (\<lambda>c. status c = ''in-progress'') d),
         completed = length (filter (\<lambda>c. status c = ''completed'') d) \<rparr>"
  by (simp add: CompanyDashboard_mount_def fetchComplaints_def complaints_filter_effect_def
        calculateStats_def filterComplaints_def CompanyDashboard_init_def Let_def)

section \<open>Fetch failures\<close>

text \<open>
  C7. In the staff view and in the customer view, a fetch that resolves with an error
  leaves the complaint list as it was (in the staff view also the visible list and the
  counts), and the error is written to the console.
\<close>

theorem fetch_failure_keeps_list:
  "(error resp = Some e \<longrightarrow>
      complaints (fetchComplaints resp st) = complaints st \<and>
      filteredComplaints (fetchComplaints resp st) = filteredComplaints st \<and>
      stats_s (fetchComplaints resp st) = stats_s st \<and>
      console (fetchComplaints resp st) = console st @ [(''Error fetching complaints:'', e)]) \<and>
   (error resp_cu = Some e \<longrightarrow>
      complaints_cu (fetchComplaints_cu resp_cu st_cu) = complaints_cu st_cu \<and>
      console_cu (fetchComplaints_cu resp_cu st_cu)
        = console_cu st_cu @ [(''Error fetching complaints:'', e)])"
  by (simp add: fetchComplaints_def fetchComplaints_cu_def)

theorem fetch_failure_keeps_list_witness:
  "error (select_all_complaints (Failed ''offline'') example_store) = Some ''offline''
   \<and> error (select_complaints_of_user (Failed ''offline'') ''u1'' example_store) = Some ''offline''
   \<and> map id_c (complaints (fetchComplaints (select_all_complaints (Failed ''offline'') example_store)
                  example_company_state)) = [''c5'', ''c4'', ''c3'', ''c2'', ''c1'']
   \<and> map id_c (filteredComplaints (fetchComplaints
                  (select_all_complaints (Failed ''offline'') example_store)
                  example_company_state)) = [''c4'']
   \<and> map id_c (complaints_cu (fetchComplaints_cu
                  (select_complaints_of_user (Failed ''offline'') ''u1'' example_store)
                  example_customer_state)) = [''c5'', ''c3'', ''c1'']
   \<and> console_cu (fetchComplaints_cu
                  (select_complaints_of_user (Failed ''offline'') ''u1'' example_store)
                  example_customer_state) = [(''Error fetching complaints:'', ''offline'')]"
  using fetch_failure_keeps_list
          [of "select_all_complaints (Failed ''offline'') example_store" "''offline''"
              example_company_state
              "select_complaints_of_user (Failed ''offline'') ''u1'' example_store"
              example_customer_state]
  by (simp add: example_defs store_defs company_defs customer_defs Let_def)

section \<open>The customer view shows the viewer's own complaints only\<close>

lemma set_order_created_at_desc [simp]: "set (order_created_at_desc xs) = set xs"
  by (simp add: order_created_at_desc_def)





section \<open>Mutations by the staff view\<close>

lemma update_complaints_Ok:
  "update_complaints Ok patch cid db =
     (\<lparr> data = None, error = None \<rparr>,
      db\<lparr> complaints_tbl := map (\<lambda>c. if id_c c = cid then patch c else c) (complaints_tbl db) \<rparr>)"
  by (simp add: update_complaints_def)

lemma tbl_updateComplaintStatus:
  "complaints_tbl (fst (updateComplaintStatus Ok oc now cid s (db, st))) =
     map (\<lambda>c. if id_c c = cid then c\<lparr> status := s, updated_at := now \<rparr> else c)
       (complaints_tbl db)"
  by (simp add: updateComplaintStatus_def update_complaints_Ok)

lemma tbl_saveCompanyNotes:
  "complaints_tbl (fst (saveCompanyNotes Ok oc now cid (db, st))) =
     map (\<lambda>c. if id_c c = cid then c\<lparr> company_notes := Some (companyNotes st), updated_at := now \<rparr>
              else c)
       (complaints_tbl db)"
  by (simp add: saveCompanyNotes_def update_complaints_Ok)

lemma patched_rows_updated_at:
  assumes "\<And>c. updated_at (patch c) = now" and "\<And>c. id_c (patch c) = id_c c"
  shows "\<forall>c \<in> set (map (\<lambda>c. if id_c c = cid then patch c else c) xs).
           id_c c = cid \<longrightarrow> updated_at c = now"
proof (intro ballI impI)
  fix c
  assume "c \<in> set (map (\<lambda>c. if id_c c = cid then patch c else c) xs)" and c: "id_c c = cid"
  then obtain c0 where c0: "c = (if id_c c0 = cid then patch c0 else c0)"
    by (auto simp only: set_map image_iff)
  show "updated_at c = now"
  proof (cases "id_c c0 = cid")
    case True
    with c0 show ?thesis by (simp add: assms)
  next
    case False
    with c0 c show ?thesis by simp
  qed
qed

lemma patched_rows_after_created:
  assumes "\<And>c. updated_at (patch c) = now" and "\<And>c. id_c (patch c) = id_c c"
    and "\<And>c. created_at (patch c) = created_at c"
    and "\<forall>c \<in> set xs. id_c c = cid \<longrightarrow> created_at c \<le> now"
  shows "\<forall>c \<in> set (map (\<lambda>c. if id_c c = cid then patch c else c) xs).
           id_c c = cid \<longrightarrow> created_at c \<le> updated_at c"
proof (intro ballI impI)
  fix c
  assume "c \<in> set (map (\<lambda>c. if id_c c = cid then patch c else c) xs)" and c: "id_c c = cid"
  then obtain c0 where c0: "c0 \<in> set xs" "c = (if id_c c0 = cid then patch c0 else c0)"
    by (auto simp only: set_map image_iff)
  show "created_at c \<le> updated_at c"
  proof (cases "id_c c0 = cid")
    case True
    with c0 assms(4) show ?thesis by (simp add: assms(1-3))
  next
    case False
    with c0 c show ?thesis by simp
  qed
qed

lemma patched_rows_invariant:
  assumes "\<And>c. updated_at (patch c) = now"
    and "\<And>c. created_at (patch c) = created_at c"
    and "\<forall>c \<in> set xs. created_at c \<le> updated_at c \<and> (id_c c = cid \<longrightarrow> created_at c \<le> now)"
  shows "\<forall>c \<in> set (map (\<lambda>c. if id_c c = cid then patch c else c) xs).
           created_at c \<le> updated_at c"
proof (intro ballI)
  fix c
  assume "c \<in> set (map (\<lambda>c. if id_c c = cid then patch c else c) xs)"
  then obtain c0 where c0: "c0 \<in> set xs" "c = (if id_c c0 = cid then patch c0 else c0)"
    by (auto simp only: set_map image_iff)
  show "created_at c \<le> updated_at c"
  proof (cases "id_c c0 = cid")
    case True
    with c0 assms(3) show ?thesis by (simp add: assms(1,2))
  next
    case False
    with c0 assms(3) show ?thesis by simp
  qed
qed

lemma failed_update_keeps_store:
  "fst (updateComplaintStatus (Failed e) oc now cid s (db, st)) = db"
  "fst (saveCompanyNotes (Failed e) oc now cid (db, st)) = db"
  by (simp_all add: updateComplaintStatus_def saveCompanyNotes_def update_complaints_def)

lemma patched_rows_created_iff:
  assumes "\<And>c. updated_at (patch c) = now" and "\<And>c. id_c (patch c) = id_c c"
    and "\<And>c. created_at (patch c) = created_at c"
  shows "(\<forall>c \<in> set (map (\<lambda>c. if id_c c = cid then patch c else c) xs).
            id_c c = cid \<longrightarrow> created_at c \<le> updated_at c)
         \<longleftrightarrow> (\<forall>c \<in> set xs. id_c c = cid \<longrightarrow> created_at c \<le> now)"
proof
  assume after: "\<forall>c \<in> set (map (\<lambda>c. if id_c c = cid then patch c else c) xs).
                   id_c c = cid \<longrightarrow> created_at c \<le> updated_at c"
  show "\<forall>c \<in> set xs. id_c c = cid \<longrightarrow> created_at c \<le> now"
  proof (intro ballI impI)
    fix c
    assume c: "c \<in> set xs" and idc: "id_c c = cid"
    from c have "(if id_c c = cid then patch c else c)
                   \<in> set (map (\<lambda>c. if id_c c = cid then patch c else c) xs)"
      by (rule imageI [of c "set xs" "\<lambda>c. if id_c c = cid then patch c else c",
                       unfolded set_map [symmetric]])
    with idc have mem: "patch c \<in> set (map (\<lambda>c. if id_c c = cid then patch c else c) xs)"
      by simp
    have "id_c (patch c) = cid"
      using idc by (simp only: assms(2))
    with after mem have "created_at (patch c) \<le> updated_at (patch c)"
      by blast
    then show "created_at c \<le> now"
      by (simp only: assms(1) assms(3))
  qed
next
  assume "\<forall>c \<in> set xs. id_c c = cid \<longrightarrow> created_at c \<le> now"
  with assms show "\<forall>c \<in> set (map (\<lambda>c. if id_c c = cid then patch c else c) xs).
                      id_c c = cid \<longrightarrow> created_at c \<le> updated_at c"
    by (intro patched_rows_after_created)
qed

text \<open>
  C4, as the code has it. A status change and a notes change that the store accepts
  rewrite the rows with the given identifier, and only those, and set their \<open>updated_at\<close>
  to the reading of the client's clock at the call; \<open>created_at\<close> is not touched. For the
  rows it changes, \<open>created_at \<le> updated_at\<close> holds afterwards exactly when that reading
  is not earlier than their creation; then it also goes on holding for the whole table if
  it held before. A change the store refuses leaves the store as it was.
\<close>

theorem mutations_set_updated_at:
  "complaints_tbl (fst (updateComplaintStatus Ok oc now cid s (db, st))) =
     map (\<lambda>c. if id_c c = cid then c\<lparr> status := s, updated_at := now \<rparr> else c)
       (complaints_tbl db)
   \<and> complaints_tbl (fst (saveCompanyNotes Ok oc now cid (db, st))) =
     map (\<lambda>c. if id_c c = cid then c\<lparr> company_notes := Some (companyNotes st), updated_at := now \<rparr>
              else c)
       (complaints_tbl db)
   \<and> (\<forall>c \<in> set (complaints_tbl (fst (updateComplaintStatus Ok oc now cid s (db, st)))).
         id_c c = cid \<longrightarrow> updated_at c = now)
   \<and> (\<forall>c \<in> set (complaints_tbl (fst (saveCompanyNotes Ok oc now cid (db, st)))).
         id_c c = cid \<longrightarrow> updated_at c = now)
   \<and> ((\<forall>c \<in> set (complaints_tbl (fst (updateComplaintStatus Ok oc now cid s (db, st)))).
           id_c c = cid \<longrightarrow> created_at c \<le> updated_at c)
        \<longleftrightarrow> (\<forall>c \<in> set (complaints_tbl db). id_c c = cid \<longrightarrow> created_at c \<le> now))
   \<and> ((\<forall>c \<in> set (complaints_tbl (fst (saveCompanyNotes Ok oc now cid (db, st)))).
           id_c c = cid \<longrightarrow> created_at c \<le> updated_at c)
        \<longleftrightarrow> (\<forall>c \<in> set (complaints_tbl db). id_c c = cid \<longrightarrow> created_at c \<le> now))
   \<and> ((\<forall>c \<in> set (complaints_tbl db).
          created_at c \<le> updated_at c \<and> (id_c c = cid \<longrightarrow> created_at c \<le> now)) \<longrightarrow>
        (\<forall>c \<in> set (complaints_tbl (fst (updateComplaintStatus Ok oc now cid s (db, st)))).
           created_at c \<le> updated_at c) \<and>
        (\<forall>c \<in> set (complaints_tbl (fst (saveCompanyNotes Ok oc now cid (db, st)))).
           created_at c \<le> updated_at c))
   \<and> fst (updateComplaintStatus (Failed e) oc now cid s (db, st)) = db
   \<and> fst (saveCompanyNotes (Failed e) oc now cid (db, st)) = db"
  unfolding tbl_updateComplaintStatus tbl_saveCompanyNotes failed_update_keeps_store
proof (intro conjI)
  let ?S = "map (\<lambda>c. if id_c c = cid then c\<lparr> status := s, updated_at := now \<rparr> else c)
              (complaints_tbl db)"
  let ?N = "map (\<lambda>c. if id_c c = cid
                      then c\<lparr> company_notes := Some (companyNotes st), updated_at := now \<rparr>
                      else c)
              (complaints_tbl db)"
  show "?S = ?S" and "?N = ?N" and "db = db" and "db = db"
    by (rule refl)+
  show "\<forall>c \<in> set ?S. id_c c = cid \<longrightarrow> updated_at c = now"
    by (rule patched_rows_updated_at) simp_all
  show "\<forall>c \<in> set ?N. id_c c = cid \<longrightarrow> updated_at c = now"
    by (rule patched_rows_updated_at) simp_all
  show "(\<forall>c \<in> set ?S. id_c c = cid \<longrightarrow> created_at c \<le> updated_at c)
        \<longleftrightarrow> (\<forall>c \<in> set (complaints_tbl db). id_c c = cid \<longrightarrow> created_at c \<le> now)"
    by (rule patched_rows_created_iff) simp_all
  show "(\<forall>c \<in> set ?N. id_c c = cid \<longrightarrow> created_at c \<le> updated_at c)
        \<longleftrightarrow> (\<forall>c \<in> set (complaints_tbl db). id_c c = cid \<longrightarrow> created_at c \<le> now)"
    by (rule patched_rows_created_iff) simp_all
  show "(\<forall>c \<in> set (complaints_tbl db).
          created_at c \<le> updated_at c \<and> (id_c c = cid \<longrightarrow> created_at c \<le> now)) \<longrightarrow>
        (\<forall>c \<in> set ?S. created_at c \<le> updated_at c) \<and>
        (\<forall>c \<in> set ?N. created_at c \<le> updated_at c)"
    by (intro impI conjI) (rule patched_rows_invariant, simp, simp, assumption)+
qed

lemma example_tbl:
  "complaints_tbl example_store =
     [example_complaint ''c1'' ''u1'' ''cancelled'' 10,
      example_complaint ''c2'' ''u2'' ''in-progress'' 20,
      example_complaint ''c3'' ''u1'' ''completed'' 30,
      example_complaint ''c4'' ''u2'' ''pending'' 40,
      example_complaint ''c5'' ''u1'' ''in-progress'' 50]"
  by (simp add: example_store_def)

theorem mutations_set_updated_at_witness:
  "map created_at (complaints_tbl example_store) = [10, 20, 30, 40, 50]
   \<and> map updated_at (complaints_tbl
        (fst (updateComplaintStatus Ok Ok 70 ''c4'' ''completed''
               (example_store, example_company_state)))) = [10, 20, 30, 70, 50]
   \<and> map created_at (complaints_tbl
        (fst (updateComplaintStatus Ok Ok 70 ''c4'' ''completed''
               (example_store, example_company_state)))) = [10, 20, 30, 40, 50]
   \<and> map status (complaints_tbl
        (fst (updateComplaintStatus Ok Ok 70 ''c4'' ''completed''
               (example_store, example_company_state))))
       = [''cancelled'', ''in-progress'', ''completed'', ''completed'', ''in-progress'']
   \<and> list_all (\<lambda>c. created_at c \<le> updated_at c) (complaints_tbl
        (fst (updateComplaintStatus Ok Ok 70 ''c4'' ''completed''
               (example_store, example_company_state))))
   \<and> map updated_at (complaints_tbl
        (fst (saveCompanyNotes Ok Ok 70 ''c4''
               (example_store, example_company_state\<lparr> companyNotes := ''Pads ordered'' \<rparr>))))
       = [10, 20, 30, 70, 50]
   \<and> map company_notes (complaints_tbl
        (fst (saveCompanyNotes Ok Ok 70 ''c4''
               (example_store, example_company_state\<lparr> companyNotes := ''Pads ordered'' \<rparr>))))
       = [None, None, None, Some ''Pads ordered'', None]"
proof -
  note m1 = mutations_set_updated_at
              [of Ok 70 "''c4''" "''completed''" example_store example_company_state "''x''"]
  note m2 = mutations_set_updated_at
              [of Ok 70 "''c4''" "''completed''" example_store
                  "example_company_state\<lparr> companyNotes := ''Pads ordered'' \<rparr>" "''x''"]
  have before: "\<forall>c \<in> set (complaints_tbl example_store).
                  created_at c \<le> updated_at c \<and> (id_c c = ''c4'' \<longrightarrow> created_at c \<le> 70)"
    by (simp add: example_tbl example_complaint_def)
  from m1 before
  have "\<forall>c \<in> set (complaints_tbl (fst (updateComplaintStatus Ok Ok 70 ''c4'' ''completed''
               (example_store, example_company_state)))). created_at c \<le> updated_at c"
    by blast
  then have inv: "list_all (\<lambda>c. created_at c \<le> updated_at c) (complaints_tbl
        (fst (updateComplaintStatus Ok Ok 70 ''c4'' ''completed''
               (example_store, example_company_state))))"
    by (simp only: list_all_iff)
  have rest: "map created_at (complaints_tbl example_store) = [10, 20, 30, 40, 50]
   \<and> map updated_at (complaints_tbl
        (fst (updateComplaintStatus Ok Ok 70 ''c4'' ''completed''
               (example_store, example_company_state)))) = [10, 20, 30, 70, 50]
   \<and> map created_at (complaints_tbl
        (fst (updateComplaintStatus Ok Ok 70 ''c4'' ''completed''
               (example_store, example_company_state)))) = [10, 20, 30, 40, 50]
   \<and> map status (complaints_tbl
        (fst (updateComplaintStatus Ok Ok 70 ''c4'' ''completed''
               (example_store, example_company_state))))
       = [''cancelled'', ''in-progress'', ''completed'', ''completed'', ''in-progress'']
   \<and> map updated_at (complaints_tbl
        (fst (saveCompanyNotes Ok Ok 70 ''c4''
               (example_store, example_company_state\<lparr> companyNotes := ''Pads ordered'' \<rparr>))))
       = [10, 20, 30, 70, 50]
   \<and> map company_notes (complaints_tbl
        (fst (saveCompanyNotes Ok Ok 70 ''c4''
               (example_store, example_company_state\<lparr> companyNotes := ''Pads ordered'' \<rparr>))))
       = [None, None, None, Some ''Pads ordered'', None]"
    unfolding m1 [THEN conjunct1] m2 [THEN conjunct2, THEN conjunct1]
    by (simp add: example_tbl example_complaint_def)
  from rest inv show ?thesis by (elim conjE) (intro conjI)
qed

text \<open>
  C4, as the claim states it, fails when the client's clock is behind the creation time
  the store has recorded: a status change made at the client's time 5 on a complaint
  created at 40 leaves \<open>updated_at\<close> at 5, earlier than \<open>created_at\<close>.
\<close>

theorem updated_at_before_created_at_counterexample:
  "map created_at (complaints_tbl
        (fst (updateComplaintStatus Ok Ok 5 ''c4'' ''completed''
               (example_store, example_company_state)))) = [10, 20, 30, 40, 50]
   \<and> map updated_at (complaints_tbl
        (fst (updateComplaintStatus Ok Ok 5 ''c4'' ''completed''
               (example_store, example_company_state)))) = [10, 20, 30, 5, 50]
   \<and> \<not> list_all (\<lambda>c. created_at c \<le> updated_at c) (complaints_tbl
        (fst (updateComplaintStatus Ok Ok 5 ''c4'' ''completed''
               (example_store, example_company_state))))"
  unfolding tbl_updateComplaintStatus
  by (simp add: example_tbl example_complaint_def)

lemma alerts_fetchComplaints [simp]: "alerts (fetchComplaints r st) = alerts st"
  by (simp add: fetchComplaints_def complaints_filter_effect_def calculateStats_def
        filterComplaints_def Let_def split: option.splits)

lemma same_status_patch:
  fixes xs :: "complaint list"
  assumes "\<forall>c \<in> set xs. id_c c = cid \<longrightarrow> status c = s"
  shows "map (\<lambda>c. if id_c c = cid then c\<lparr> status := s, updated_at := now \<rparr> else c) xs
         = map (\<lambda>c. if id_c c = cid then c\<lparr> updated_at := now \<rparr> else c) xs"
proof (rule map_cong [OF refl])
  fix c :: complaint
  assume cin: "c \<in> set xs"
  show "(if id_c c = cid then c\<lparr> status := s, updated_at := now \<rparr> else c)
           = (if id_c c = cid then c\<lparr> updated_at := now \<rparr> else c)"
  proof (cases "id_c c = cid")
    case True
    from assms cin True have s: "status c = s" by blast
    have "c\<lparr> status := status c \<rparr> = c" by simp
    then have "c\<lparr> status := s \<rparr> = c" unfolding s .
    then show ?thesis by simp
  next
    case False
    then show ?thesis by simp
  qed
qed

lemma status_of_touched_rows:
  "map status (map (\<lambda>c. if id_c c = cid then c\<lparr> updated_at := now \<rparr> else c) xs) = map status xs"
  by (induction xs) simp_all

lemma updated_at_of_touched_rows:
  "\<forall>c \<in> set (map (\<lambda>c. if id_c c = cid then c\<lparr> updated_at := now \<rparr> else c) xs).
     id_c c = cid \<longrightarrow> updated_at c = now"
  by (rule patched_rows_updated_at) simp_all

text \<open>
  C5. Setting a complaint's status to the status it already has is carried out like any
  other change: when the store accepts the update, the handler takes its success path (it
  goes on to the fetch and shows no error), the status of every row stays what it was, and
  \<open>updated_at\<close> of the complaint becomes the time of the call.
\<close>

theorem same_status_refreshes_updated_at:
  assumes "\<forall>c \<in> set (complaints_tbl db). id_c c = cid \<longrightarrow> status c = s"
  shows "updateComplaintStatus Ok oc now cid s (db, st) =
           (db\<lparr> complaints_tbl :=
                  map (\<lambda>c. if id_c c = cid then c\<lparr> updated_at := now \<rparr> else c)
                    (complaints_tbl db) \<rparr>,
            fetchComplaints
              (select_all_complaints oc
                 (db\<lparr> complaints_tbl :=
                       map (\<lambda>c. if id_c c = cid then c\<lparr> updated_at := now \<rparr> else c)
                         (complaints_tbl db) \<rparr>))
              st)
         \<and> alerts (snd (updateComplaintStatus Ok oc now cid s (db, st))) = alerts st
         \<and> map status (complaints_tbl (fst (updateComplaintStatus Ok oc now cid s (db, st))))
             = map status (complaints_tbl db)
         \<and> (\<forall>c \<in> set (complaints_tbl (fst (updateComplaintStatus Ok oc now cid s (db, st)))).
               id_c c = cid \<longrightarrow> updated_at c = now)"
proof -
  have run: "updateComplaintStatus Ok oc now cid s (db, st) =
           (db\<lparr> complaints_tbl :=
                  map (\<lambda>c. if id_c c = cid then c\<lparr> updated_at := now \<rparr> else c)
                    (complaints_tbl db) \<rparr>,
            fetchComplaints
              (select_all_complaints oc
                 (db\<lparr> complaints_tbl :=
                       map (\<lambda>c. if id_c c = cid then c\<lparr> updated_at := now \<rparr> else c)
                         (complaints_tbl db) \<rparr>))
              st)"
    by (simp add: updateComplaintStatus_def update_complaints_Ok same_status_patch [OF assms])
  show ?thesis
    unfolding run
    by (simp add: status_of_touched_rows updated_at_of_touched_rows del: set_map)
qed

theorem same_status_refreshes_updated_at_witness:
  "map status (filter (\<lambda>c. id_c c = ''c4'') (complaints_tbl example_store)) = [''pending'']
   \<and> map updated_at (filter (\<lambda>c. id_c c = ''c4'') (complaints_tbl example_store)) = [40]
   \<and> map status (complaints_tbl
        (fst (updateComplaintStatus Ok Ok 70 ''c4'' ''pending''
               (example_store, example_company_state))))
       = [''cancelled'', ''in-progress'', ''completed'', ''pending'', ''in-progress'']
   \<and> map updated_at (complaints_tbl
        (fst (updateComplaintStatus Ok Ok 70 ''c4'' ''pending''
               (example_store, example_company_state)))) = [10, 20, 30, 70, 50]
   \<and> alerts (snd (updateComplaintStatus Ok Ok 70 ''c4'' ''pending''
               (example_store, example_company_state))) = []"
proof -
  have h: "\<forall>c \<in> set (complaints_tbl example_store). id_c c = ''c4'' \<longrightarrow> status c = ''pending''"
    by (simp add: example_tbl example_complaint_def)
  have al: "alerts example_company_state = []"
    by (simp add: example_company_state_def CompanyDashboard_mount_def
          complaints_filter_effect_def calculateStats_def filterComplaints_def
          CompanyDashboard_init_def Let_def)
  note run = same_status_refreshes_updated_at [OF h, of Ok 70 example_company_state]
  show ?thesis
    unfolding run [THEN conjunct1]
    by (simp add: al example_tbl example_complaint_def)
qed

section \<open>Submitting a complaint\<close>








section \<open>The submitted complaint in the customer's list\<close>





lemma length_order_created_at_desc [simp]:
  "length (order_created_at_desc rows) = length rows"
  by (simp add: order_created_at_desc_def)








section \<open>Roles and dashboards\<close>












end
